theory Spec2Isabelle
  imports Complex_Main "HOL-Library.Monad_Syntax"
begin

section \<open>Phaser.Ellipse (src/geom/Ellipse.js)\<close>

text \<open>
  A JavaScript number that is finite is modelled as a \<^typ>\<open>real\<close>. An operation whose
  result is not a finite number (a division by zero gives \<open>Infinity\<close> or \<open>NaN\<close>, the
  square root of a negative number gives \<open>NaN\<close>) returns \<open>None\<close>. The containment
  test, the sampling and the intersection are computed in exact real arithmetic. The
  properties \<open>right\<close> and \<open>bottom\<close> write a difference and read a sum back, and what
  is read back depends on the rounding of doubles: their arithmetic rounds
  (\<open>js_add\<close>, \<open>js_sub\<close> below).
\<close>

subsection \<open>Rounding to a double\<close>

text \<open>
  IEEE 754 binary64, round to nearest, ties to even: a number other than 0 with
  \<open>2\<^sup>e \<le> |r| < 2\<^sup>e\<^sup>+\<^sup>1\<close> is rounded to a multiple of \<open>2\<^sup>e\<^sup>-\<^sup>5\<^sup>2\<close> (53 significant bits),
  with \<open>e\<close> not below \<open>-1022\<close> (subnormal numbers). Overflow is not modelled: the
  rounding is that of results below \<open>2\<^sup>1\<^sup>0\<^sup>2\<^sup>4\<close> in magnitude.
\<close>

definition pow2 :: "int \<Rightarrow> real" where
  "pow2 k = (if 0 \<le> k then 2 ^ nat k else 1 / 2 ^ nat (- k))"

definition round_half_even :: "real \<Rightarrow> int" where
  "round_half_even q =
     (let f = \<lfloor>q\<rfloor> in
      if q - of_int f < 1 / 2 then f
      else if 1 / 2 < q - of_int f then f + 1
      else if even f then f else f + 1)"

definition double_exponent :: "real \<Rightarrow> int" where
  "double_exponent r = max \<lfloor>log 2 \<bar>r\<bar>\<rfloor> (- 1022)"

definition round_double :: "real \<Rightarrow> real" where
  "round_double r =
     (if r = 0 then 0
      else of_int (round_half_even (r / pow2 (double_exponent r - 52)))
             * pow2 (double_exponent r - 52))"

text \<open>A number is a finite double when rounding leaves it as it is.\<close>

definition is_double :: "real \<Rightarrow> bool" where
  "is_double r = (round_double r = r \<and> \<bar>r\<bar> < 2 ^ 1024)"

text \<open>The operators \<open>+\<close> and \<open>-\<close> on two doubles: the exact result, rounded.\<close>

definition js_add :: "real \<Rightarrow> real \<Rightarrow> real" where
  "js_add a b = round_double (a + b)"

definition js_sub :: "real \<Rightarrow> real \<Rightarrow> real" where
  "js_sub a b = round_double (a - b)"

subsection \<open>Data\<close>

text \<open>\<open>new Phaser.Point(x, y)\<close> and \<open>new Phaser.Rectangle(x, y, width, height)\<close>.\<close>

datatype point = Point (p_x: real) (p_y: real)

datatype rectangle = Rectangle (r_x: real) (r_y: real) (r_width: real) (r_height: real)

text \<open>The four fields \<open>x\<close>, \<open>y\<close>, \<open>width\<close>, \<open>height\<close> of a \<open>Phaser.Ellipse\<close>.\<close>

record ellipse =
  e_x :: real
  e_y :: real
  e_width :: real
  e_height :: real

text \<open>
  A value assigned to a property; only the distinction between the boolean \<open>true\<close> and
  everything else matters to the setters below.
\<close>

datatype jsvalue = JBool bool | JNum real | JString string | JUndefined | JNull

subsection \<open>Construction and mutation\<close>

definition Ellipse :: "real \<Rightarrow> real \<Rightarrow> real \<Rightarrow> real \<Rightarrow> ellipse" where
  "Ellipse x y width height = \<lparr>e_x = x, e_y = y, e_width = width, e_height = height\<rparr>"

definition setTo :: "real \<Rightarrow> real \<Rightarrow> real \<Rightarrow> real \<Rightarrow> ellipse \<Rightarrow> ellipse" where
  "setTo x y width height this =
     this\<lparr>e_x := x, e_y := y, e_width := width, e_height := height\<rparr>"

definition getBounds :: "ellipse \<Rightarrow> rectangle" where
  "getBounds this =
     Rectangle (e_x this - e_width this) (e_y this - e_height this) (e_width this) (e_height this)"

subsection \<open>Containment\<close>

text \<open>The static \<open>Phaser.Ellipse.contains(a, x, y)\<close>.\<close>

definition Ellipse_contains :: "ellipse \<Rightarrow> real \<Rightarrow> real \<Rightarrow> bool" where
  "Ellipse_contains a x y =
     (if e_width a \<le> 0 \<or> e_height a \<le> 0 then False
      else
        let normx = ((x - e_x a) / e_width a) - 0.5;
            normy = ((y - e_y a) / e_height a) - 0.5;
            normx = normx * normx;
            normy = normy * normy
        in normx + normy < 0.25)"

text \<open>The method \<open>contains(x, y)\<close> of the prototype.\<close>

definition contains :: "ellipse \<Rightarrow> real \<Rightarrow> real \<Rightarrow> bool" where
  "contains this x y = Ellipse_contains this x y"

subsection \<open>Random sampling\<close>

text \<open>
  \<open>random(out)\<close>. The two calls of \<open>Math.random()\<close> are the parameters \<open>u1\<close> (the
  first draw, the angle) and \<open>u2\<close> (the second draw, the radius), each in \<open>[0, 1)\<close>.
  \<open>out\<close> is \<open>None\<close> when the argument is \<open>undefined\<close>; both fields of \<open>out\<close> are
  overwritten.
\<close>

definition random :: "ellipse \<Rightarrow> point option \<Rightarrow> real \<Rightarrow> real \<Rightarrow> point" where
  "random this out u1 u2 =
     (let out = (case out of None \<Rightarrow> Point 0 0 | Some q \<Rightarrow> q);
          p = u1 * pi * 2;
          r = u2;
          out = Point (sqrt r * cos p) (p_y out);
          out = Point (p_x out) (sqrt r * sin p);
          out = Point (e_x this + (p_x out * e_width this / 2)) (p_y out);
          out = Point (p_x out) (e_y this + (p_y out * e_height this / 2))
      in out)"

subsection \<open>The properties \<open>left\<close>, \<open>right\<close>, \<open>top\<close>, \<open>bottom\<close> and \<open>empty\<close>\<close>

definition get_left :: "ellipse \<Rightarrow> real" where
  "get_left this = e_x this"

definition set_left :: "real \<Rightarrow> ellipse \<Rightarrow> ellipse" where
  "set_left v this = this\<lparr>e_x := v\<rparr>"

definition get_right :: "ellipse \<Rightarrow> real" where
  "get_right this = js_add (e_x this) (e_width this)"

definition set_right :: "real \<Rightarrow> ellipse \<Rightarrow> ellipse" where
  "set_right v this =
     (if v < e_x this then this\<lparr>e_width := 0\<rparr>
      else this\<lparr>e_width := js_sub v (e_x this)\<rparr>)"

definition get_top :: "ellipse \<Rightarrow> real" where
  "get_top this = e_y this"

definition set_top :: "real \<Rightarrow> ellipse \<Rightarrow> ellipse" where
  "set_top v this = this\<lparr>e_y := v\<rparr>"

definition get_bottom :: "ellipse \<Rightarrow> real" where
  "get_bottom this = js_add (e_y this) (e_height this)"

definition set_bottom :: "real \<Rightarrow> ellipse \<Rightarrow> ellipse" where
  "set_bottom v this =
     (if v < e_y this then this\<lparr>e_height := 0\<rparr>
      else this\<lparr>e_height := js_sub v (e_y this)\<rparr>)"

definition get_empty :: "ellipse \<Rightarrow> bool" where
  "get_empty this = (e_width this = 0 \<or> e_height this = 0)"

text \<open>The setter compares with \<open>=== true\<close>: no other value, of any type, is equal to it.\<close>

definition set_empty :: "jsvalue \<Rightarrow> ellipse \<Rightarrow> ellipse" where
  "set_empty v this = (if v = JBool True then setTo 0 0 0 0 this else this)"

subsection \<open>Line intersection\<close>

text \<open>
  \<open>Phaser.Line\<close> is not part of this file. \<open>intersectsLine\<close> reads the two end points
  of the line, \<open>l.start\<close> and \<open>l.end\<close>, and calls its method \<open>l.pointOnSegment\<close>, so
  a line is a record of the two points and of the method it carries.
\<close>

record line =
  l_start :: point
  l_end :: point
  pointOnSegment :: "real \<Rightarrow> real \<Rightarrow> real \<Rightarrow> bool"

text \<open>
  Modelled from the spec: \<open>Phaser.Line\<close> and its \<open>pointOnSegment(x, y, epsilon)\<close>
  (src/geom/Line.js) are missing from the sources. The spec describes the method as the
  test that a point lies on the finite segment, not merely on the infinite line, within
  a distance tolerance: the point is on the line through the end points up to
  \<open>epsilon\<close>, and inside the bounding box of the two end points.
\<close>

definition Line_pointOnSegment :: "point \<Rightarrow> point \<Rightarrow> real \<Rightarrow> real \<Rightarrow> real \<Rightarrow> bool" where
  "Line_pointOnSegment s t x y epsilon =
     (\<bar>(x - p_x s) * (p_y t - p_y s) - (p_x t - p_x s) * (y - p_y s)\<bar> < epsilon
      \<and> min (p_x s) (p_x t) \<le> x \<and> x \<le> max (p_x s) (p_x t)
      \<and> min (p_y s) (p_y t) \<le> y \<and> y \<le> max (p_y s) (p_y t))"

text \<open>
  Modelled from the spec: the constructor \<open>new Phaser.Line(x1, y1, x2, y2)\<close>, a segment
  record of the two end points \<open>(x1, y1)\<close> and \<open>(x2, y2)\<close> with the method above.
\<close>

definition Line :: "real \<Rightarrow> real \<Rightarrow> real \<Rightarrow> real \<Rightarrow> line" where
  "Line x1 y1 x2 y2 =
     \<lparr>l_start = Point x1 y1, l_end = Point x2 y2,
      pointOnSegment = Line_pointOnSegment (Point x1 y1) (Point x2 y2)\<rparr>"

text \<open>Division and square root: \<open>None\<close> where JavaScript gives no finite number.\<close>

definition js_div :: "real \<Rightarrow> real \<Rightarrow> real option" where
  "js_div a b = (if b = 0 then None else Some (a / b))"

definition js_sqrt :: "real \<Rightarrow> real option" where
  "js_sqrt a = (if a < 0 then None else Some (sqrt a))"

text \<open>
  The first half of \<open>Phaser.Ellipse.intersectsLine\<close> (the lines up to the construction
  of \<open>p0\<close> and \<open>p1\<close>): the two candidate points. Once a value is not a finite number,
  every value computed from it here is not one either, so the result is \<open>None\<close> as a
  whole when the slope, the square root or the quotient is not finite.
\<close>

definition intersection_points :: "ellipse \<Rightarrow> line \<Rightarrow> (point \<times> point) option" where
  "intersection_points e l =
     (let h = e_x e;
          k = e_y e
      in do {
        m \<leftarrow> js_div (p_y (l_end l) - p_y (l_start l)) (p_x (l_end l) - p_x (l_start l));
        let n = p_y (l_end l) - (m * p_x (l_end l));
        let a = e_width e / 2;
        let b = e_height e / 2;
        let del = n + m * h;
        s0 \<leftarrow> js_sqrt ((a * a) * (m * m) + (b * b) - (del * del) - (k * k) + (2 * del * k));
        x0 \<leftarrow> js_div (h * (b * b) - m * (a * a) * (n - k) + a * b * s0)
                ((a * a) * (m * m) + (b * b));
        s1 \<leftarrow> js_sqrt ((a * a) * (m * m) + (b * b) - (del * del) - (k * k) + (2 * del * k));
        x1 \<leftarrow> js_div (h * (b * b) - m * (a * a) * (n - k) - a * b * s1)
                ((a * a) * (m * m) + (b * b));
        let y0 = m * x0 + n;
        let y1 = m * x1 + n;
        Some (Point x0 y0, Point x1 y1)
      })"

text \<open>The value returned: a boolean, or an array of points.\<close>

datatype result = RBool bool | RPoints "point list"

text \<open>
  Modelled from the spec: \<open>Phaser.Point\<close> (src/geom/Point.js) is missing from the
  sources. The spec gives the point record numeric \<open>x\<close> and \<open>y\<close> fields and a
  constructor. An argument that is not a number (\<open>NaN\<close>, here \<open>None\<close>) is falsy, and
  the constructor puts 0 in its place, with the same default \<open>x = x || 0\<close> as the
  constructor of \<open>Phaser.Ellipse\<close> above; a number is stored as it is.
\<close>

definition new_Point :: "real option \<Rightarrow> real option \<Rightarrow> point" where
  "new_Point x y =
     Point (case x of None \<Rightarrow> 0 | Some v \<Rightarrow> v) (case y of None \<Rightarrow> 0 | Some v \<Rightarrow> v)"

text \<open>
  The points \<open>p0 = new Phaser.Point(x0, y0)\<close> and \<open>p1 = new Phaser.Point(x1, y1)\<close>
  that \<open>intersectsLine\<close> builds in every case. When the coordinates are numbers they
  are the points of \<open>intersection_points\<close>; otherwise all four coordinates are
  \<open>NaN\<close>.
\<close>

definition candidate_points :: "ellipse \<Rightarrow> line \<Rightarrow> point \<times> point" where
  "candidate_points e l =
     (case intersection_points e l of
        None \<Rightarrow> (new_Point None None, new_Point None None)
      | Some (p0, p1) \<Rightarrow> (p0, p1))"

text \<open>
  \<open>Phaser.Ellipse.intersectsLine(e, l, returnPoints)\<close>; \<open>returnPoints\<close> is \<open>None\<close>
  when the argument is absent, which is falsy. Both points are always handed to the
  method \<open>pointOnSegment\<close> of the line, and its answers decide the result.
\<close>

definition intersectsLine :: "ellipse \<Rightarrow> line \<Rightarrow> bool option \<Rightarrow> result" where
  "intersectsLine e l returnPoints =
     (let wanted = (returnPoints = Some True);
          (p0, p1) = candidate_points e l;
          p0Exists = pointOnSegment l (p_x p0) (p_y p0) 0.01;
          p1Exists = pointOnSegment l (p_x p1) (p_y p1) 0.01
      in
        if p0Exists \<and> p1Exists then (if wanted then RPoints [p0, p1] else RBool True)
        else if p0Exists then (if wanted then RPoints [p0] else RBool True)
        else if p1Exists then (if wanted then RPoints [p1] else RBool True)
        else (if wanted then RPoints [] else RBool False))"

subsection \<open>The formulas of the specification\<close>

text \<open>
  Slope and intercept of the line through the end points of a segment, and the two
  roots of the quadratic that the line and the ellipse centred at \<open>(h, k)\<close> with
  semi-axes \<open>a\<close> and \<open>b\<close> give, in the words of the specification.
\<close>

definition spec_slope :: "line \<Rightarrow> real" where
  "spec_slope l = (p_y (l_end l) - p_y (l_start l)) / (p_x (l_end l) - p_x (l_start l))"

definition spec_intercept :: "line \<Rightarrow> real" where
  "spec_intercept l = p_y (l_end l) - spec_slope l * p_x (l_end l)"

definition spec_del :: "ellipse \<Rightarrow> line \<Rightarrow> real" where
  "spec_del e l = spec_intercept l + spec_slope l * e_x e"

definition spec_discriminant :: "ellipse \<Rightarrow> line \<Rightarrow> real" where
  "spec_discriminant e l =
     (e_width e / 2)\<^sup>2 * (spec_slope l)\<^sup>2 + (e_height e / 2)\<^sup>2
       - (spec_del e l)\<^sup>2 - (e_y e)\<^sup>2 + 2 * spec_del e l * e_y e"

definition spec_denominator :: "ellipse \<Rightarrow> line \<Rightarrow> real" where
  "spec_denominator e l = (e_width e / 2)\<^sup>2 * (spec_slope l)\<^sup>2 + (e_height e / 2)\<^sup>2"

definition spec_root :: "real \<Rightarrow> ellipse \<Rightarrow> line \<Rightarrow> real" where
  "spec_root sign e l =
     (e_x e * (e_height e / 2)\<^sup>2
        - spec_slope l * (e_width e / 2)\<^sup>2 * (spec_intercept l - e_y e)
        + sign * ((e_width e / 2) * (e_height e / 2) * sqrt (spec_discriminant e l)))
     / spec_denominator e l"

definition spec_point :: "real \<Rightarrow> ellipse \<Rightarrow> line \<Rightarrow> point" where
  "spec_point sign e l =
     Point (spec_root sign e l) (spec_slope l * spec_root sign e l + spec_intercept l)"

text \<open>
  The points among \<open>p0\<close> and \<open>p1\<close> that pass the segment test with tolerance 0.01, in
  the order \<open>[p0, p1]\<close>.
\<close>

definition accepted :: "ellipse \<Rightarrow> line \<Rightarrow> point list" where
  "accepted e l =
     (let (p0, p1) = candidate_points e l
      in filter (\<lambda>p. pointOnSegment l (p_x p) (p_y p) 0.01) [p0, p1])"

section \<open>Properties\<close>

subsection \<open>Auxiliary facts about the intersection\<close>

lemma Ellipse_fields:
  "e_x (Ellipse x y w h) = x" "e_y (Ellipse x y w h) = y"
  "e_width (Ellipse x y w h) = w" "e_height (Ellipse x y w h) = h"
  by (simp_all add: Ellipse_def)

text \<open>
  For a line that is not vertical the candidates are the two roots of the specification,
  and there are none exactly when the denominator vanishes or the discriminant is negative.
\<close>

lemma intersection_points_closed_form:
  assumes nv: "p_x (l_start l) \<noteq> p_x (l_end l)"
  shows "intersection_points e l =
    (if spec_denominator e l = 0 \<or> spec_discriminant e l < 0 then None
     else Some (spec_point 1 e l, spec_point (-1) e l))"
proof -
  let ?m = "spec_slope l"
  let ?n = "p_y (l_end l) - (?m * p_x (l_end l))"
  let ?a = "e_width e / 2" and ?b = "e_height e / 2"
  let ?h = "e_x e" and ?k = "e_y e"
  let ?del = "?n + ?m * ?h"
  let ?D = "spec_discriminant e l" and ?N = "spec_denominator e l"
  let ?c = "?h * (?b * ?b) - ?m * (?a * ?a) * (?n - ?k)"
  have m: "js_div (p_y (l_end l) - p_y (l_start l)) (p_x (l_end l) - p_x (l_start l)) = Some ?m"
    using nv by (simp add: js_div_def spec_slope_def)
  have D: "(?a * ?a) * (?m * ?m) + (?b * ?b) - (?del * ?del) - (?k * ?k) + (2 * ?del * ?k) = ?D"
    by (simp add: spec_discriminant_def spec_del_def spec_intercept_def power2_eq_square)
  have N: "(?a * ?a) * (?m * ?m) + (?b * ?b) = ?N"
    by (simp add: spec_denominator_def power2_eq_square)
  have D': "?N - (?del * ?del) - (?k * ?k) + (2 * ?del * ?k) = ?D"
    using D by (simp only: N)
  have ip: "intersection_points e l =
     do { s0 \<leftarrow> js_sqrt ?D; x0 \<leftarrow> js_div (?c + ?a * ?b * s0) ?N;
          s1 \<leftarrow> js_sqrt ?D; x1 \<leftarrow> js_div (?c - ?a * ?b * s1) ?N;
          Some (Point x0 (?m * x0 + ?n), Point x1 (?m * x1 + ?n)) }"
    by (simp only: intersection_points_def Let_def m bind.bind_lunit D' N)
  have r0: "(?c + ?a * ?b * sqrt ?D) / ?N = spec_root 1 e l"
    by (simp add: spec_root_def spec_intercept_def power2_eq_square)
  have r1: "(?c - ?a * ?b * sqrt ?D) / ?N = spec_root (-1) e l"
    by (simp add: spec_root_def spec_intercept_def power2_eq_square)
  show ?thesis
  proof (cases "?N = 0 \<or> ?D < 0")
    case True
    then show ?thesis by (auto simp add: ip js_sqrt_def js_div_def)
  next
    case False
    then have "intersection_points e l =
       Some (Point (spec_root 1 e l) (?m * spec_root 1 e l + ?n),
             Point (spec_root (-1) e l) (?m * spec_root (-1) e l + ?n))"
      by (simp only: ip js_sqrt_def js_div_def r0 r1 bind.bind_lunit if_False de_Morgan_disj) 
    with False show ?thesis by (simp only: spec_point_def spec_intercept_def if_False)
  qed
qed


lemma spec_denominator_pos:
  assumes "0 < e_height e"
  shows "0 < spec_denominator e l"
proof -
  have "0 \<le> (e_width e / 2)\<^sup>2 * (spec_slope l)\<^sup>2" by simp
  moreover have "0 < (e_height e / 2)\<^sup>2" using assms by simp
  ultimately show ?thesis unfolding spec_denominator_def by linarith
qed

lemma spec_root_order:
  assumes w: "0 < e_width e" and h: "0 < e_height e" and d: "0 \<le> spec_discriminant e l"
  shows "spec_root (-1) e l \<le> spec_root 1 e l"
proof -
  have t: "0 \<le> (e_width e / 2) * (e_height e / 2) * sqrt (spec_discriminant e l)"
    using w h d by simp
  have n: "0 < spec_denominator e l" using h by (rule spec_denominator_pos)
  show ?thesis
    unfolding spec_root_def using t n by (intro divide_right_mono) simp_all
qed

lemma intersectsLine_true: "intersectsLine e l (Some True) = RPoints (accepted e l)"
  by (simp add: intersectsLine_def accepted_def Let_def split: prod.splits)



lemma intersectsLine_two_points:
  assumes "intersectsLine e l rp = RPoints [q0, q1]"
  shows "candidate_points e l = (q0, q1)"
  using assms
  by (simp add: intersectsLine_def Let_def split: prod.splits if_splits)

lemma new_Point_numbers: "new_Point (Some x) (Some y) = Point x y"
  by (simp add: new_Point_def)

lemma new_Point_NaN: "new_Point None None = Point 0 0"
  by (simp add: new_Point_def)

lemma scenario_points:
  "intersection_points (Ellipse 0 0 10 10) (Line (-10) 0 10 0) = Some (Point 5 0, Point (-5) 0)"
  by (simp add: intersection_points_def js_div_def js_sqrt_def Let_def Ellipse_def Line_def)

lemma scenario_accepted:
  "accepted (Ellipse 0 0 10 10) (Line (-10) 0 10 0) = [Point 5 0, Point (-5) 0]"
  unfolding accepted_def candidate_points_def scenario_points
  by (simp add: Line_def Line_pointOnSegment_def)




subsection \<open>Containment\<close>

text \<open>
  Claim C1, as stated: for every ellipse with positive width and height the point
  \<open>(x, y)\<close> made of the ellipse's own fields is contained; in particular
  \<open>contains(0, 0)\<close> is true for the ellipse \<open>(0, 0, 10, 10)\<close>. The code decides
  otherwise at that very ellipse: \<open>(x, y)\<close> is the upper-left corner of the framing
  rectangle, which is never inside.
\<close>

theorem contains_own_xy_counterexample:
  "0 < e_width (Ellipse 0 0 10 10) \<and> 0 < e_height (Ellipse 0 0 10 10)
   \<and> \<not> contains (Ellipse 0 0 10 10) (e_x (Ellipse 0 0 10 10)) (e_y (Ellipse 0 0 10 10))"
  by (simp add: contains_def Ellipse_contains_def Ellipse_def)

text \<open>
  Claim C1, amended: for every ellipse with positive width and height, the centre of the
  framing rectangle, \<open>(x + width/2, y + height/2)\<close>, is contained, and the point
  \<open>(x, y)\<close> is not.
\<close>

theorem contains_centre_of_frame:
  assumes "0 < e_width e" and "0 < e_height e"
  shows "contains e (e_x e + e_width e / 2) (e_y e + e_height e / 2)
         \<and> \<not> contains e (e_x e) (e_y e)"
  using assms by (simp add: contains_def Ellipse_contains_def)

theorem contains_centre_of_frame_witness:
  "0 < e_width (Ellipse 0 0 10 10) \<and> 0 < e_height (Ellipse 0 0 10 10)
   \<and> contains (Ellipse 0 0 10 10) 5 5 \<and> \<not> contains (Ellipse 0 0 10 10) 0 0"
proof -
  have w: "0 < e_width (Ellipse 0 0 10 10)" and h: "0 < e_height (Ellipse 0 0 10 10)"
    by (simp_all add: Ellipse_def)
  from contains_centre_of_frame [OF w h] w h show ?thesis
    by (simp add: Ellipse_def)
qed

text \<open>
  Claim C3: \<open>Phaser.Ellipse.contains(a, x, y)\<close> is false whenever the width or the
  height is not positive; otherwise it is true exactly when \<open>nx*nx + ny*ny < 0.25\<close>,
  strictly, with \<open>nx = (x - a.x)/a.width - 0.5\<close> and \<open>ny = (y - a.y)/a.height - 0.5\<close>.
\<close>

theorem Ellipse_contains_normalised:
  "(e_width a \<le> 0 \<or> e_height a \<le> 0 \<longrightarrow> \<not> Ellipse_contains a x y)
   \<and> (0 < e_width a \<and> 0 < e_height a \<longrightarrow>
        Ellipse_contains a x y =
          (((x - e_x a) / e_width a - 0.5) * ((x - e_x a) / e_width a - 0.5)
           + ((y - e_y a) / e_height a - 0.5) * ((y - e_y a) / e_height a - 0.5) < 0.25))"
  by (simp add: Ellipse_contains_def Let_def)

theorem Ellipse_contains_normalised_witness:
  "e_width (Ellipse 0 0 0 10) \<le> 0 \<and> \<not> Ellipse_contains (Ellipse 0 0 0 10) 0 5
   \<and> 0 < e_width (Ellipse 0 0 10 10) \<and> 0 < e_height (Ellipse 0 0 10 10)
   \<and> Ellipse_contains (Ellipse 0 0 10 10) 3 5
   \<and> \<not> Ellipse_contains (Ellipse 0 0 10 10) 3 0
   \<and> \<not> Ellipse_contains (Ellipse 0 0 10 10) 10 5"
  using Ellipse_contains_normalised [of "Ellipse 0 0 0 10" 0 5]
    Ellipse_contains_normalised [of "Ellipse 0 0 10 10" 3 5]
    Ellipse_contains_normalised [of "Ellipse 0 0 10 10" 3 0]
    Ellipse_contains_normalised [of "Ellipse 0 0 10 10" 10 5]
  by (simp add: Ellipse_def)

subsection \<open>Random sampling\<close>

text \<open>
  Claim C2: for an ellipse with positive width and height and draws \<open>u1\<close>, \<open>u2\<close> in
  \<open>[0, 1)\<close>, the point returned by \<open>random\<close> satisfies \<open>contains\<close>. The code does
  not do so: \<open>random\<close> spreads its points around \<open>(x, y)\<close> as if it were the centre,
  while \<open>contains\<close> takes \<open>(x, y)\<close> as the upper-left corner of the framing rectangle.
  For the ellipse \<open>(0, 0, 10, 10)\<close>, the draws \<open>u1 = 0.5\<close>, \<open>u2 = 0.25\<close> give the
  point \<open>(-2.5, 0)\<close> and the draws \<open>u1 = 0\<close>, \<open>u2 = 0\<close> the point \<open>(0, 0)\<close>;
  neither is contained.
\<close>

theorem random_point_not_contained:
  "random (Ellipse 0 0 10 10) None 0.5 0.25 = Point (-2.5) 0
   \<and> \<not> contains (Ellipse 0 0 10 10) (-2.5) 0
   \<and> random (Ellipse 0 0 10 10) None 0 0 = Point 0 0
   \<and> \<not> contains (Ellipse 0 0 10 10) 0 0"
  by (simp add: random_def contains_def Ellipse_contains_def Ellipse_def real_sqrt_divide)

subsection \<open>Line intersection\<close>

text \<open>
  Claim C4: for every ellipse \<open>e\<close> and every line \<open>l\<close> whose end points have distinct
  \<open>x\<close> coordinates, the two candidate points of \<open>intersectsLine\<close> have the \<open>x\<close>
  coordinates \<open>[h b\<^sup>2 - m a\<^sup>2 (n - k) \<plusminus> a b sqrt(a\<^sup>2 m\<^sup>2 + b\<^sup>2 - del\<^sup>2 - k\<^sup>2 + 2 del k)] / (a\<^sup>2 m\<^sup>2 + b\<^sup>2)\<close>
  and \<open>y = m x + n\<close>, with \<open>m\<close> and \<open>n\<close> the slope and intercept of the line,
  \<open>h = e.x\<close>, \<open>k = e.y\<close>, \<open>a = e.width/2\<close>, \<open>b = e.height/2\<close> and \<open>del = n + m h\<close>.
  Where the formula has no finite value (a zero denominator, a negative discriminant), the
  code has no finite candidate either.
\<close>

theorem intersection_points_formula:
  assumes "p_x (l_start l) \<noteq> p_x (l_end l)"
  shows "(spec_denominator e l \<noteq> 0 \<and> 0 \<le> spec_discriminant e l \<longrightarrow>
            intersection_points e l = Some (spec_point 1 e l, spec_point (-1) e l))
         \<and> (spec_denominator e l = 0 \<or> spec_discriminant e l < 0 \<longrightarrow>
            intersection_points e l = None)"
  using intersection_points_closed_form [OF assms, of e] by auto

theorem intersection_points_formula_witness:
  "p_x (l_start (Line (-10) 0 10 0)) \<noteq> p_x (l_end (Line (-10) 0 10 0))
   \<and> spec_denominator (Ellipse 0 0 10 10) (Line (-10) 0 10 0) \<noteq> 0
   \<and> 0 \<le> spec_discriminant (Ellipse 0 0 10 10) (Line (-10) 0 10 0)
   \<and> intersection_points (Ellipse 0 0 10 10) (Line (-10) 0 10 0) = Some (Point 5 0, Point (-5) 0)
   \<and> p_x (l_start (Line (-10) 20 10 20)) \<noteq> p_x (l_end (Line (-10) 20 10 20))
   \<and> spec_discriminant (Ellipse 0 0 10 10) (Line (-10) 20 10 20) < 0
   \<and> intersection_points (Ellipse 0 0 10 10) (Line (-10) 20 10 20) = None"
proof -
  let ?E = "Ellipse 0 0 10 10"
  let ?L = "Line (-10) 0 10 0" and ?M = "Line (-10) 20 10 20"
  have nvL: "p_x (l_start ?L) \<noteq> p_x (l_end ?L)" and nvM: "p_x (l_start ?M) \<noteq> p_x (l_end ?M)"
    by (simp_all add: Line_def)
  have L: "spec_slope ?L = 0" "spec_intercept ?L = 0"
    by (simp_all add: spec_intercept_def spec_slope_def Line_def)
  have M: "spec_slope ?M = 0" "spec_intercept ?M = 20"
    by (simp_all add: spec_intercept_def spec_slope_def Line_def)
  have dL: "spec_denominator ?E ?L = 25" "spec_discriminant ?E ?L = 25"
    by (simp_all add: spec_denominator_def spec_discriminant_def spec_del_def L Ellipse_def)
  have dM: "spec_discriminant ?E ?M = - 375"
    by (simp add: spec_discriminant_def spec_del_def M Ellipse_def)
  have s: "sqrt 25 = 5"
    using real_sqrt_abs [of 5] by simp
  have pL: "spec_point 1 ?E ?L = Point 5 0" "spec_point (-1) ?E ?L = Point (-5) 0"
    by (simp_all add: spec_point_def spec_root_def L dL s Ellipse_fields)
  from intersection_points_formula [OF nvL, of ?E] intersection_points_formula [OF nvM, of ?E]
  show ?thesis
    by (simp add: nvL nvM dL dM pL)
qed



text \<open>
  Claim C10: for every ellipse with positive width and height and every line that is not
  vertical, with a discriminant that is not negative, the two candidates satisfy
  \<open>x0 \<ge> x1\<close> (the root with \<open>+sqrt\<close> comes first); so an array of two points
  returned by \<open>intersectsLine\<close> is ordered by non-increasing \<open>x\<close>.
\<close>

theorem intersection_points_order:
  assumes w: "0 < e_width e" and h: "0 < e_height e"
    and nv: "p_x (l_start l) \<noteq> p_x (l_end l)"
    and d: "0 \<le> spec_discriminant e l"
  shows "intersection_points e l = Some (spec_point 1 e l, spec_point (-1) e l)
         \<and> p_x (spec_point (-1) e l) \<le> p_x (spec_point 1 e l)
         \<and> (intersectsLine e l rp = RPoints [q0, q1] \<longrightarrow> p_x q1 \<le> p_x q0)"
proof -
  have n: "spec_denominator e l \<noteq> 0"
    using spec_denominator_pos [OF h, of l] by simp
  have ip: "intersection_points e l = Some (spec_point 1 e l, spec_point (-1) e l)"
    using intersection_points_closed_form [OF nv, of e] n d by simp
  have le: "p_x (spec_point (-1) e l) \<le> p_x (spec_point 1 e l)"
    using spec_root_order [OF w h d] by (simp add: spec_point_def)
  have "p_x q1 \<le> p_x q0" if r: "intersectsLine e l rp = RPoints [q0, q1]"
  proof -
    from intersectsLine_two_points [OF r] ip
    have "q0 = spec_point 1 e l" and "q1 = spec_point (-1) e l"
      by (simp_all add: candidate_points_def)
    with le show ?thesis by simp
  qed
  with ip le show ?thesis by simp
qed

theorem intersection_points_order_witness:
  "0 < e_width (Ellipse 0 0 10 10) \<and> 0 < e_height (Ellipse 0 0 10 10)
   \<and> p_x (l_start (Line (-10) 0 10 0)) \<noteq> p_x (l_end (Line (-10) 0 10 0))
   \<and> 0 \<le> spec_discriminant (Ellipse 0 0 10 10) (Line (-10) 0 10 0)
   \<and> intersectsLine (Ellipse 0 0 10 10) (Line (-10) 0 10 0) (Some True)
        = RPoints [Point 5 0, Point (-5) 0]
   \<and> p_x (Point (-5) 0) \<le> p_x (Point 5 0)"
proof -
  let ?E = "Ellipse 0 0 10 10" and ?L = "Line (-10) 0 10 0"
  have w: "0 < e_width ?E" and h: "0 < e_height ?E"
    by (simp_all add: Ellipse_def)
  have nv: "p_x (l_start ?L) \<noteq> p_x (l_end ?L)"
    by (simp add: Line_def)
  have sl: "spec_slope ?L = 0" "spec_intercept ?L = 0"
    by (simp_all add: spec_intercept_def spec_slope_def Line_def)
  have d: "0 \<le> spec_discriminant ?E ?L"
    by (simp add: spec_discriminant_def spec_del_def sl Ellipse_def)
  have r: "intersectsLine ?E ?L (Some True) = RPoints [Point 5 0, Point (-5) 0]"
    by (simp add: intersectsLine_true scenario_accepted)
  from intersection_points_order [OF w h nv d, of "Some True" "Point 5 0" "Point (-5) 0"] r
  have "p_x (Point (-5) 0) \<le> p_x (Point 5 0)" by blast
  with w h nv d r show ?thesis by blast
qed

subsection \<open>Edges, emptiness and bounds\<close>

subsection \<open>Auxiliary facts about rounding\<close>

lemma pow2_pos: "0 < pow2 k"
  by (simp add: pow2_def)

lemma pow2_powr: "pow2 k = 2 powr of_int k"
proof (cases "0 \<le> k")
  case True
  then show ?thesis by (simp add: pow2_def powr_realpow [symmetric])
next
  case False
  then have n: "real (nat (- k)) = - real_of_int k" by simp
  have "(2::real) ^ nat (- k) = 2 powr real (nat (- k))"
    by (simp add: powr_realpow)
  then have "(2::real) ^ nat (- k) = 2 powr (- real_of_int k)"
    by (simp only: n)
  then have "1 / (2::real) ^ nat (- k) = 2 powr real_of_int k"
    by (simp add: powr_minus_divide)
  with False show ?thesis by (simp add: pow2_def)
qed

text \<open>The exponent of a number between two consecutive powers of two.\<close>

lemma double_exponent_eq:
  assumes "pow2 k \<le> \<bar>r\<bar>" and "\<bar>r\<bar> < pow2 (k + 1)" and "- 1022 \<le> k"
  shows "double_exponent r = k"
proof -
  have pos: "0 < \<bar>r\<bar>"
    using assms(1) pow2_pos [of k] by linarith
  have "of_int k \<le> log 2 \<bar>r\<bar>"
    using assms(1) pos by (simp add: le_log_iff pow2_powr)
  moreover have "log 2 \<bar>r\<bar> < of_int (k + 1)"
    using assms(2) pos by (simp add: log_less_iff pow2_powr)
  ultimately have "\<lfloor>log 2 \<bar>r\<bar>\<rfloor> = k"
    by (simp add: floor_eq_iff)
  with assms(3) show ?thesis
    by (simp add: double_exponent_def)
qed

lemma round_double_at:
  assumes "double_exponent r = k"
  shows "round_double r =
    (if r = 0 then 0 else of_int (round_half_even (r / pow2 (k - 52))) * pow2 (k - 52))"
  by (simp add: round_double_def assms)

lemma round_half_even_of_int: "round_half_even (of_int n) = n"
  by (simp add: round_half_even_def)

text \<open>A multiple of \<open>2\<^sup>k\<^sup>-\<^sup>5\<^sup>2\<close> between \<open>2\<^sup>k\<close> and \<open>2\<^sup>k\<^sup>+\<^sup>1\<close> is a double.\<close>

lemma is_double_I:
  assumes lo: "pow2 k \<le> \<bar>r\<bar>" and hi: "\<bar>r\<bar> < pow2 (k + 1)" and k: "- 1022 \<le> k"
    and m: "r / pow2 (k - 52) \<in> \<int>" and b: "\<bar>r\<bar> < 2 ^ 1024"
  shows "is_double r"
proof -
  from m obtain n where n: "r / pow2 (k - 52) = of_int n"
    by (rule Ints_cases)
  have e: "double_exponent r = k"
    using lo hi k by (rule double_exponent_eq)
  have p: "pow2 (k - 52) \<noteq> 0"
    using pow2_pos [of "k - 52"] by simp
  have "round_double r = of_int n * pow2 (k - 52)"
    using lo pow2_pos [of k]
    by (simp only: round_double_at [OF e] n round_half_even_of_int) auto
  also have "\<dots> = r"
    using n p by (simp add: field_simps)
  finally show ?thesis
    using b by (simp add: is_double_def)
qed

text \<open>
  Claim C6, as stated: after the assignment \<open>e.right = v\<close>, if \<open>v \<ge> e.x\<close> the width
  is \<open>v - e.x\<close> and \<open>e.right\<close> reads \<open>v\<close>; if \<open>v < e.x\<close> the width is 0 and
  \<open>e.right\<close> reads \<open>e.x\<close>. The first half fails where the difference is rounded:
  for \<open>x = -5\<close> and \<open>v\<close> the double written \<open>-1.8\<close>, which is
  \<open>-8106479329266893 / 2\<^sup>5\<^sup>2\<close>, the width is the double \<open>7205759403792794 / 2\<^sup>5\<^sup>1\<close>
  and \<open>e.right\<close> reads \<open>-8106479329266892 / 2\<^sup>5\<^sup>2\<close>, written
  \<open>-1.7999999999999998\<close>.
\<close>

theorem set_right_then_get_right_counterexample:
  "is_double (e_x (Ellipse (-5) 0 10 10)) \<and> is_double (- (8106479329266893 / 2 ^ 52))
   \<and> e_x (Ellipse (-5) 0 10 10) \<le> - (8106479329266893 / 2 ^ 52)
   \<and> get_right (set_right (- (8106479329266893 / 2 ^ 52)) (Ellipse (-5) 0 10 10))
        = - (8106479329266892 / 2 ^ 52)
   \<and> get_right (set_right (- (8106479329266893 / 2 ^ 52)) (Ellipse (-5) 0 10 10))
        \<noteq> - (8106479329266893 / 2 ^ 52)"
proof -
  let ?v = "- (8106479329266893 / 2 ^ 52) :: real"
  let ?E = "Ellipse (-5) 0 10 10"
  have x: "e_x ?E = - 5"
    by (simp add: Ellipse_fields)
  have dx: "is_double (- 5)"
    by (rule is_double_I [of 2]) (simp_all add: pow2_def)
  have dv: "is_double ?v"
    by (rule is_double_I [of 0]) (simp_all add: pow2_def)
  have le: "- 5 \<le> ?v"
    by simp
  have e1: "double_exponent (?v - (- 5)) = 1"
    by (rule double_exponent_eq) (simp_all add: pow2_def)
  have w: "js_sub ?v (- 5) = 7205759403792794 / 2 ^ 51"
    unfolding js_sub_def round_double_at [OF e1]
    by (simp add: round_half_even_def pow2_def Let_def)
  have e2: "double_exponent (- 5 + 7205759403792794 / 2 ^ 51) = 0"
    by (rule double_exponent_eq) (simp_all add: pow2_def)
  have r: "js_add (- 5) (7205759403792794 / 2 ^ 51) = - (8106479329266892 / 2 ^ 52)"
    unfolding js_add_def round_double_at [OF e2]
    by (simp add: round_half_even_def pow2_def Let_def)
  have s: "set_right ?v ?E = ?E\<lparr>e_width := js_sub ?v (- 5)\<rparr>"
    using le by (simp only: set_right_def x) simp
  have g: "get_right (set_right ?v ?E) = - (8106479329266892 / 2 ^ 52)"
    unfolding s w get_right_def using r x by simp
  have ne: "- (8106479329266892 / 2 ^ 52) \<noteq> ?v"
    by simp
  from dx dv le g ne show ?thesis
    by (simp only: x) simp
qed

text \<open>
  Claim C6, amended: for an ellipse and a value \<open>v\<close> that are doubles, after the
  assignment \<open>e.right = v\<close>, if \<open>v \<ge> e.x\<close> and the difference \<open>v - e.x\<close> is
  itself a double, the width is \<open>v - e.x\<close> and \<open>e.right\<close> reads \<open>v\<close>; if
  \<open>v < e.x\<close> the width is 0 and \<open>e.right\<close> reads \<open>e.x\<close>. The same holds for
  \<open>bottom\<close> with \<open>y\<close> and the height.
\<close>

theorem set_right_then_get_right_exact:
  assumes "is_double (e_x e)" and "is_double (e_y e)" and "is_double v"
  shows "(e_x e \<le> v \<and> is_double (v - e_x e) \<longrightarrow>
            e_width (set_right v e) = v - e_x e \<and> get_right (set_right v e) = v)
         \<and> (v < e_x e \<longrightarrow>
            e_width (set_right v e) = 0 \<and> get_right (set_right v e) = e_x e)
         \<and> (e_y e \<le> v \<and> is_double (v - e_y e) \<longrightarrow>
            e_height (set_bottom v e) = v - e_y e \<and> get_bottom (set_bottom v e) = v)
         \<and> (v < e_y e \<longrightarrow>
            e_height (set_bottom v e) = 0 \<and> get_bottom (set_bottom v e) = e_y e)"
  using assms
  by (simp add: set_right_def get_right_def set_bottom_def get_bottom_def
      js_add_def js_sub_def is_double_def)

theorem set_right_then_get_right_exact_witness:
  "is_double (e_x (Ellipse 2 3 10 10)) \<and> is_double (e_y (Ellipse 2 3 10 10))
   \<and> is_double 7 \<and> is_double 1
   \<and> e_x (Ellipse 2 3 10 10) \<le> 7 \<and> is_double (7 - e_x (Ellipse 2 3 10 10))
   \<and> e_width (set_right 7 (Ellipse 2 3 10 10)) = 5
   \<and> get_right (set_right 7 (Ellipse 2 3 10 10)) = 7
   \<and> e_y (Ellipse 2 3 10 10) \<le> 7 \<and> is_double (7 - e_y (Ellipse 2 3 10 10))
   \<and> e_height (set_bottom 7 (Ellipse 2 3 10 10)) = 4
   \<and> get_bottom (set_bottom 7 (Ellipse 2 3 10 10)) = 7
   \<and> 1 < e_x (Ellipse 2 3 10 10) \<and> e_width (set_right 1 (Ellipse 2 3 10 10)) = 0
   \<and> get_right (set_right 1 (Ellipse 2 3 10 10)) = 2
   \<and> 1 < e_y (Ellipse 2 3 10 10) \<and> e_height (set_bottom 1 (Ellipse 2 3 10 10)) = 0
   \<and> get_bottom (set_bottom 1 (Ellipse 2 3 10 10)) = 3"
proof -
  let ?E = "Ellipse 2 3 10 10"
  have f: "e_x ?E = 2" "e_y ?E = 3"
    by (simp_all add: Ellipse_fields)
  have d1: "is_double 1"
    by (rule is_double_I [of 0]) (simp_all add: pow2_def)
  have d2: "is_double 2"
    by (rule is_double_I [of 1]) (simp_all add: pow2_def)
  have d3: "is_double 3"
    by (rule is_double_I [of 1]) (simp_all add: pow2_def)
  have d4: "is_double 4"
    by (rule is_double_I [of 2]) (simp_all add: pow2_def)
  have d5: "is_double 5"
    by (rule is_double_I [of 2]) (simp_all add: pow2_def)
  have d7: "is_double 7"
    by (rule is_double_I [of 2]) (simp_all add: pow2_def)
  have dx: "is_double (e_x ?E)" and dy: "is_double (e_y ?E)"
    by (simp_all only: f d2 d3)
  from set_right_then_get_right_exact [OF dx dy d7] set_right_then_get_right_exact [OF dx dy d1]
  show ?thesis
    by (simp add: f d1 d2 d3 d4 d5 d7)
qed

text \<open>
  Claim C7: \<open>empty\<close> reads true exactly when the width is 0 or the height is 0; the
  comparison is an equality, so a negative width or height does not make the ellipse
  empty by itself. The assignment \<open>empty = true\<close> sets \<open>x\<close>, \<open>y\<close>, the width and the
  height to 0.
\<close>

theorem empty_property:
  "get_empty e = (e_width e = 0 \<or> e_height e = 0)
   \<and> (e_width e < 0 \<and> e_height e \<noteq> 0 \<or> e_height e < 0 \<and> e_width e \<noteq> 0 \<longrightarrow> \<not> get_empty e)
   \<and> e_x (set_empty (JBool True) e) = 0 \<and> e_y (set_empty (JBool True) e) = 0
   \<and> e_width (set_empty (JBool True) e) = 0 \<and> e_height (set_empty (JBool True) e) = 0"
  by (auto simp add: get_empty_def set_empty_def setTo_def)

theorem empty_property_witness:
  "e_width (Ellipse 1 2 (-3) 4) < 0 \<and> e_height (Ellipse 1 2 (-3) 4) \<noteq> 0
   \<and> \<not> get_empty (Ellipse 1 2 (-3) 4)
   \<and> set_empty (JBool True) (Ellipse 1 2 (-3) 4) = Ellipse 0 0 0 0"
proof -
  have f: "e_width (Ellipse 1 2 (-3) 4) < 0" "e_height (Ellipse 1 2 (-3) 4) \<noteq> 0"
    by (simp_all add: Ellipse_fields)
  from empty_property [of "Ellipse 1 2 (-3) 4"] f
  have "\<not> get_empty (Ellipse 1 2 (-3) 4)"
    and "e_x (set_empty (JBool True) (Ellipse 1 2 (-3) 4)) = 0"
    and "e_y (set_empty (JBool True) (Ellipse 1 2 (-3) 4)) = 0"
    and "e_width (set_empty (JBool True) (Ellipse 1 2 (-3) 4)) = 0"
    and "e_height (set_empty (JBool True) (Ellipse 1 2 (-3) 4)) = 0"
    by blast+
  with f show ?thesis
    by (simp add: Ellipse_def ellipse.equality)
qed

text \<open>
  Claim C9: assigning to \<open>empty\<close> any value other than \<open>true\<close>, for instance
  \<open>false\<close>, leaves \<open>x\<close>, \<open>y\<close>, the width and the height as they were.
\<close>

theorem set_empty_other_value:
  assumes "v \<noteq> JBool True"
  shows "set_empty v e = e"
  using assms by (simp add: set_empty_def)

theorem set_empty_other_value_witness:
  "JBool False \<noteq> JBool True \<and> set_empty (JBool False) (Ellipse 1 2 3 4) = Ellipse 1 2 3 4
   \<and> JNum 1 \<noteq> JBool True \<and> set_empty (JNum 1) (Ellipse 1 2 3 4) = Ellipse 1 2 3 4"
proof -
  have a: "JBool False \<noteq> JBool True" and b: "JNum 1 \<noteq> JBool True"
    by simp_all
  from set_empty_other_value [OF a, of "Ellipse 1 2 3 4"]
    set_empty_other_value [OF b, of "Ellipse 1 2 3 4"] a b
  show ?thesis by blast
qed

text \<open>
  Claim C8: \<open>getBounds\<close> returns the rectangle \<open>(x - width, y - height, width, height)\<close>,
  which is the rectangle \<open>(x - width/2, y - height/2, width, height)\<close> only when the
  width and the height are both 0.
\<close>

theorem getBounds_offset:
  "getBounds e = Rectangle (e_x e - e_width e) (e_y e - e_height e) (e_width e) (e_height e)
   \<and> (getBounds e
        = Rectangle (e_x e - e_width e / 2) (e_y e - e_height e / 2) (e_width e) (e_height e))
      = (e_width e = 0 \<and> e_height e = 0)"
  by (auto simp add: getBounds_def)

end
